theory Spec2Isabelle
  imports Main "HOL-Library.Multiset"
begin

section \<open>JSON values and the interpreter's text conversions\<close>

text \<open>
  The server and the client exchange the values that Python's \<open>json\<close> module produces:
  \<open>None\<close>, booleans, integers, strings, lists and dictionaries with string keys. A
  dictionary is the list of its items in insertion order; a Python dictionary has each key
  once. A string is a list of characters, one per Python character, restricted to the
  256 characters of \<open>char\<close>. Floating-point numbers are not part of the model.
\<close>

datatype json =
    JNull
  | JBool bool
  | JInt int
  | JStr string
  | JArr "json list"
  | JObj "(string \<times> json) list"

text \<open>The exceptions the two programs can raise, each with what \<open>str(e)\<close> needs.\<close>

datatype error =
    KeyError string
  | TypeError string
  | AttributeError string
  | DatabaseError string
  | JSONDecodeError string
  | ConnectionError string

definition digit_char :: "nat \<Rightarrow> char" where
  "digit_char d = ''0123456789abcdef'' ! d"

fun dec :: "nat \<Rightarrow> string" where
  "dec n = (if n < 10 then [digit_char n] else dec (n div 10) @ [digit_char (n mod 10)])"

declare dec.simps [simp del]

definition str_int :: "int \<Rightarrow> string" where
  "str_int i = (if i < 0 then CHR ''-'' # dec (nat (- i)) else dec (nat i))"

definition hex2 :: "nat \<Rightarrow> string" where
  "hex2 n = [digit_char (n div 16), digit_char (n mod 16)]"

fun join :: "string \<Rightarrow> string list \<Rightarrow> string" where
  "join sep [] = []"
| "join sep [x] = x"
| "join sep (x # y # ys) = x @ sep @ join sep (y # ys)"

text \<open>
  \<open>repr\<close> of a string: single quotes, unless the text holds a single quote and no double
  quote; the quote and the backslash are escaped, and so is every character that is not
  printable.
\<close>

definition printable :: "char \<Rightarrow> bool" where
  "printable c = (let n = of_char c :: nat in
     32 \<le> n \<and> n \<noteq> 127 \<and> \<not> (128 \<le> n \<and> n \<le> 160) \<and> n \<noteq> 173)"

definition repr_char :: "char \<Rightarrow> char \<Rightarrow> string" where
  "repr_char q c =
     (if c = q \<or> c = CHR 0x5C then [CHR 0x5C, c]
      else if c = CHR 0x09 then [CHR 0x5C, CHR ''t'']
      else if c = CHR 0x0A then [CHR 0x5C, CHR ''n'']
      else if c = CHR 0x0D then [CHR 0x5C, CHR ''r'']
      else if printable c then [c]
      else [CHR 0x5C, CHR ''x''] @ hex2 (of_char c))"

definition repr_str :: "string \<Rightarrow> string" where
  "repr_str s =
     (let q = (if CHR 0x27 \<in> set s \<and> CHR 0x22 \<notin> set s then CHR 0x22 else CHR 0x27)
      in [q] @ concat (map (repr_char q) s) @ [q])"

primrec py_repr :: "json \<Rightarrow> string" where
  "py_repr JNull = ''None''"
| "py_repr (JBool b) = (if b then ''True'' else ''False'')"
| "py_repr (JInt i) = str_int i"
| "py_repr (JStr s) = repr_str s"
| "py_repr (JArr xs) = ''['' @ join '', '' (map py_repr xs) @ '']''"
| "py_repr (JObj kvs) =
     ''{'' @ join '', '' (map (\<lambda>(k, r). repr_str k @ '': '' @ r)
                             (map (map_prod (\<lambda>k. k) py_repr) kvs)) @ ''}''"

text \<open>\<open>str(v)\<close>, which an f-string applies to each value it interpolates.\<close>

definition py_str :: "json \<Rightarrow> string" where
  "py_str v = (case v of JStr s \<Rightarrow> s | _ \<Rightarrow> py_repr v)"

text \<open>
  \<open>json.dumps\<close> with its defaults: \<open>ensure_ascii\<close>, items separated by a comma and a
  space, keys from values by a colon and a space.
\<close>

definition dumps_char :: "char \<Rightarrow> string" where
  "dumps_char c =
     (if c = CHR 0x22 then [CHR 0x5C, CHR 0x22]
      else if c = CHR 0x5C then [CHR 0x5C, CHR 0x5C]
      else if c = CHR 0x0A then [CHR 0x5C, CHR ''n'']
      else if c = CHR 0x0D then [CHR 0x5C, CHR ''r'']
      else if c = CHR 0x09 then [CHR 0x5C, CHR ''t'']
      else if c = CHR 0x08 then [CHR 0x5C, CHR ''b'']
      else if c = CHR 0x0C then [CHR 0x5C, CHR ''f'']
      else if 32 \<le> (of_char c :: nat) \<and> (of_char c :: nat) \<le> 126 then [c]
      else [CHR 0x5C, CHR ''u'', CHR ''0'', CHR ''0''] @ hex2 (of_char c))"

definition dumps_str :: "string \<Rightarrow> string" where
  "dumps_str s = [CHR 0x22] @ concat (map dumps_char s) @ [CHR 0x22]"

primrec dumps :: "json \<Rightarrow> string" where
  "dumps JNull = ''null''"
| "dumps (JBool b) = (if b then ''true'' else ''false'')"
| "dumps (JInt i) = str_int i"
| "dumps (JStr s) = dumps_str s"
| "dumps (JArr xs) = ''['' @ join '', '' (map dumps xs) @ '']''"
| "dumps (JObj kvs) =
     ''{'' @ join '', '' (map (\<lambda>(k, r). dumps_str k @ '': '' @ r)
                             (map (map_prod (\<lambda>k. k) dumps) kvs)) @ ''}''"

text \<open>\<open>str(e)\<close> of an exception: a \<open>KeyError\<close> prints the \<open>repr\<close> of its key.\<close>

definition str_exc :: "error \<Rightarrow> string" where
  "str_exc e = (case e of
       KeyError k \<Rightarrow> repr_str k
     | TypeError m \<Rightarrow> m
     | AttributeError m \<Rightarrow> m
     | DatabaseError m \<Rightarrow> m
     | JSONDecodeError m \<Rightarrow> m
     | ConnectionError m \<Rightarrow> m)"

definition type_name :: "json \<Rightarrow> string" where
  "type_name v = (case v of
       JNull \<Rightarrow> ''NoneType''
     | JBool _ \<Rightarrow> ''bool''
     | JInt _ \<Rightarrow> ''int''
     | JStr _ \<Rightarrow> ''str''
     | JArr _ \<Rightarrow> ''list''
     | JObj _ \<Rightarrow> ''dict'')"

text \<open>
  \<open>v[k]\<close> with a string key \<open>k\<close>: a dictionary without the key raises \<open>KeyError\<close>, every
  other value raises \<open>TypeError\<close> (the wording is CPython 3.11's).
\<close>

definition subscript :: "json \<Rightarrow> string \<Rightarrow> error + json" where
  "subscript v k = (case v of
       JObj kvs \<Rightarrow> (case map_of kvs k of Some x \<Rightarrow> Inr x | None \<Rightarrow> Inl (KeyError k))
     | JArr _ \<Rightarrow> Inl (TypeError ''list indices must be integers or slices, not str'')
     | JStr _ \<Rightarrow> Inl (TypeError (''string indices must be integers, not '' @ repr_str ''str''))
     | _ \<Rightarrow> Inl (TypeError (repr_str (type_name v) @ '' object is not subscriptable'')))"

text \<open>\<open>v.get(k, d)\<close>: only a dictionary has the method.\<close>

definition dict_get :: "json \<Rightarrow> string \<Rightarrow> json \<Rightarrow> error + json" where
  "dict_get v k d = (case v of
       JObj kvs \<Rightarrow> Inr (case map_of kvs k of Some x \<Rightarrow> x | None \<Rightarrow> d)
     | _ \<Rightarrow> Inl (AttributeError (repr_str (type_name v) @ '' object has no attribute ''
                                  @ repr_str ''get'')))"

text \<open>\<open>v[:160]\<close>: strings and lists can be sliced.\<close>

definition slice160 :: "json \<Rightarrow> error + json" where
  "slice160 v = (case v of
       JStr s \<Rightarrow> Inr (JStr (take 160 s))
     | JArr xs \<Rightarrow> Inr (JArr (take 160 xs))
     | JObj _ \<Rightarrow> Inl (TypeError (''unhashable type: '' @ repr_str ''slice''))
     | _ \<Rightarrow> Inl (TypeError (repr_str (type_name v) @ '' object is not subscriptable'')))"

abbreviation nl :: string where
  "nl \<equiv> [CHR 0x0A]"

section \<open>The data store\<close>

text \<open>
  The server reaches PostgreSQL through \<open>psycopg2\<close>. The store holds the two tables the
  statements of \<open>execute_tool\<close> name, the value of \<open>NOW()\<close>, the identifiers the next
  inserts receive, and the calls made to the driver so far, in order. How the store
  answers is part of it: whether a connection can be opened, which inserts it rejects,
  and what it makes of a \<open>LIMIT\<close> that is neither an integer nor \<open>NULL\<close>.

  The \<open>slug\<close> and \<open>title\<close> columns hold the value passed; what the driver converts a value
  that is not text into is not modelled. No failure is modelled between an insert and its
  commit, so the row is added when the insert is executed.
\<close>

record page_row =
  page_row_id :: nat
  page_slug :: json
  page_title :: json
  page_layout :: string
  page_hero :: string
  page_meta :: string
  page_status :: string
  page_created_at :: int
  page_updated_at :: int

record post_row =
  post_row_id :: nat
  post_slug :: json
  post_title :: json
  post_content :: string
  post_meta :: string
  post_status :: string
  post_published_at :: int
  post_created_at :: int
  post_updated_at :: int

datatype db_call = Connect | Cursor | Execute string | Fetch | Commit | CursorClose | ConnClose

record store =
  pages :: "page_row list"
  posts :: "post_row list"
  next_page_id :: nat
  next_post_id :: nat
  now :: int
  calls :: "db_call list"
  unreachable :: "string option"
  rejects :: "string \<Rightarrow> json \<Rightarrow> json \<Rightarrow> string option"
  limit_other :: "json \<Rightarrow> string + nat option"

definition log_call :: "db_call \<Rightarrow> store \<Rightarrow> store" where
  "log_call c st = st\<lparr>calls := calls st @ [c]\<rparr>"

text \<open>\<open>psycopg2.connect(self.db_url)\<close>\<close>

definition connect :: "store \<Rightarrow> store \<times> (error + unit)" where
  "connect st = (case unreachable st of
       Some m \<Rightarrow> (st, Inl (DatabaseError m))
     | None \<Rightarrow> (log_call Connect st, Inr ()))"

text \<open>
  The row count of \<open>LIMIT %s\<close>: PostgreSQL refuses a negative count and reads \<open>NULL\<close> as no
  limit.
\<close>

definition limit_count :: "store \<Rightarrow> json \<Rightarrow> string + nat option" where
  "limit_count st v = (case v of
       JInt n \<Rightarrow> (if n < 0 then Inl ''LIMIT must not be negative'' else Inr (Some (nat n)))
     | JNull \<Rightarrow> Inr None
     | _ \<Rightarrow> limit_other st v)"

text \<open>
  \<open>WHERE _status = 'published' ORDER BY created_at DESC LIMIT n\<close> over the rows of a table.
  SQL leaves the order of rows with equal \<open>created_at\<close> open; here they keep the table's
  order.
\<close>

definition select_published ::
  "('r \<Rightarrow> string) \<Rightarrow> ('r \<Rightarrow> int) \<Rightarrow> 'r list \<Rightarrow> nat option \<Rightarrow> 'r list" where
  "select_published status created rows n =
     (let found = sort_key (\<lambda>r. - created r) (filter (\<lambda>r. status r = ''published'') rows)
      in case n of None \<Rightarrow> found | Some k \<Rightarrow> take k found)"

text \<open>\<open>cur.execute\<close> of the \<open>SELECT\<close> on a table, then \<open>cur.fetchall()\<close>.\<close>

definition select_pages :: "store \<Rightarrow> json \<Rightarrow> store \<times> (error + page_row list)" where
  "select_pages st limit =
     (let st1 = log_call (Execute ''pages'') st
      in case limit_count st limit of
           Inl m \<Rightarrow> (st1, Inl (DatabaseError m))
         | Inr n \<Rightarrow> (log_call Fetch st1,
                      Inr (select_published page_status page_created_at (pages st) n)))"

definition select_posts :: "store \<Rightarrow> json \<Rightarrow> store \<times> (error + post_row list)" where
  "select_posts st limit =
     (let st1 = log_call (Execute ''posts'') st
      in case limit_count st limit of
           Inl m \<Rightarrow> (st1, Inl (DatabaseError m))
         | Inr n \<Rightarrow> (log_call Fetch st1,
                      Inr (select_published post_status post_created_at (posts st) n)))"

text \<open>\<open>cur.execute\<close> of the \<open>INSERT\<close> into \<open>pages\<close>, then \<open>cur.fetchone()\<close>.\<close>

definition insert_page ::
  "store \<Rightarrow> json \<Rightarrow> json \<Rightarrow> string \<Rightarrow> string \<Rightarrow> string \<Rightarrow> store \<times> (error + nat)" where
  "insert_page st slug title layout hero meta =
     (let st1 = log_call (Execute ''pages'') st
      in case rejects st ''pages'' slug title of
           Some m \<Rightarrow> (st1, Inl (DatabaseError m))
         | None \<Rightarrow>
             (log_call Fetch
                (st1\<lparr>pages := pages st @
                       [\<lparr>page_row_id = next_page_id st, page_slug = slug, page_title = title,
                         page_layout = layout, page_hero = hero, page_meta = meta,
                         page_status = ''published'', page_created_at = now st,
                         page_updated_at = now st\<rparr>],
                     next_page_id := Suc (next_page_id st)\<rparr>),
              Inr (next_page_id st)))"

text \<open>\<open>cur.execute\<close> of the \<open>INSERT\<close> into \<open>posts\<close>, then \<open>cur.fetchone()\<close>.\<close>

definition insert_post ::
  "store \<Rightarrow> json \<Rightarrow> json \<Rightarrow> string \<Rightarrow> string \<Rightarrow> store \<times> (error + nat)" where
  "insert_post st slug title rich_content meta =
     (let st1 = log_call (Execute ''posts'') st
      in case rejects st ''posts'' slug title of
           Some m \<Rightarrow> (st1, Inl (DatabaseError m))
         | None \<Rightarrow>
             (log_call Fetch
                (st1\<lparr>posts := posts st @
                       [\<lparr>post_row_id = next_post_id st, post_slug = slug, post_title = title,
                         post_content = rich_content, post_meta = meta,
                         post_status = ''published'', post_published_at = now st,
                         post_created_at = now st, post_updated_at = now st\<rparr>],
                     next_post_id := Suc (next_post_id st)\<rparr>),
              Inr (next_post_id st)))"

section \<open>The server: \<open>PayloadMCPServer\<close>\<close>

text \<open>The result envelope every tool returns: one content block of type \<open>text\<close>.\<close>

definition text_result :: "string \<Rightarrow> json" where
  "text_result t = JObj [(''content'', JArr [JObj [(''type'', JStr ''text''), (''text'', JStr t)]])]"

text \<open>The entries the loops of \<open>list_pages\<close> and \<open>list_posts\<close> append for one row.\<close>

definition page_entry :: "page_row \<Rightarrow> string" where
  "page_entry page =
     ''- '' @ py_str (page_title page) @ nl
     @ ''  Slug: '' @ py_str (page_slug page) @ nl
     @ ''  URL: https://thechief.quest/'' @ py_str (page_slug page) @ nl @ nl"

definition post_entry :: "post_row \<Rightarrow> string" where
  "post_entry post =
     ''- '' @ py_str (post_title post) @ nl
     @ ''  Slug: '' @ py_str (post_slug post) @ nl @ nl"

text \<open>The documents \<open>create_page\<close> and \<open>create_post\<close> hand to \<open>json.dumps\<close>.\<close>

definition page_layout_doc :: "json \<Rightarrow> json \<Rightarrow> json" where
  "page_layout_doc title content_text =
     JArr [JObj [
       (''blockType'', JStr ''content''),
       (''columns'', JArr [JObj [
          (''size'', JStr ''full''),
          (''richText'', JObj [
             (''root'', JObj [
                (''type'', JStr ''root''),
                (''children'', JArr [
                   JObj [(''type'', JStr ''heading''),
                         (''tag'', JStr ''h1''),
                         (''children'', JArr [JObj [(''text'', title)]])],
                   JObj [(''type'', JStr ''paragraph''),
                         (''children'', JArr [JObj [(''text'', content_text)]])]])])])]])]]"

definition post_content_doc :: "json \<Rightarrow> json" where
  "post_content_doc content_text =
     JObj [(''root'', JObj [
        (''type'', JStr ''root''),
        (''children'', JArr [
           JObj [(''type'', JStr ''paragraph''),
                 (''children'', JArr [JObj [(''text'', content_text)]])]])])]"

definition meta_doc :: "json \<Rightarrow> json \<Rightarrow> json" where
  "meta_doc title description = JObj [(''title'', title), (''description'', description)]"

text \<open>The branch \<open>tool_name == 'list_pages'\<close> of \<open>execute_tool\<close>.\<close>

definition exec_list_pages :: "store \<Rightarrow> json \<Rightarrow> store \<times> (error + json)" where
  "exec_list_pages st args =
     (case connect st of
        (st1, Inl e) \<Rightarrow> (st1, Inl e)
      | (st1, Inr _) \<Rightarrow>
          let st2 = log_call Cursor st1 in
          (case dict_get args ''limit'' (JInt 10) of
             Inl e \<Rightarrow> (st2, Inl e)
           | Inr limit \<Rightarrow>
               (case select_pages st2 limit of
                  (st3, Inl e) \<Rightarrow> (st3, Inl e)
                | (st3, Inr found) \<Rightarrow>
                    (log_call ConnClose (log_call CursorClose st3),
                     Inr (text_result
                            (foldl (\<lambda>content page. content @ page_entry page)
                                   (''Pages in Payload CMS:'' @ nl @ nl) found))))))"

text \<open>The branch \<open>tool_name == 'create_page'\<close>.\<close>

definition exec_create_page :: "store \<Rightarrow> json \<Rightarrow> store \<times> (error + json)" where
  "exec_create_page st args =
     (case subscript args ''title'' of Inl e \<Rightarrow> (st, Inl e) | Inr title \<Rightarrow>
     (case subscript args ''slug'' of Inl e \<Rightarrow> (st, Inl e) | Inr slug \<Rightarrow>
     (case subscript args ''content'' of Inl e \<Rightarrow> (st, Inl e) | Inr content_text \<Rightarrow>
      let layout = dumps (page_layout_doc title content_text);
          hero = dumps (JObj [(''type'', JStr ''none'')])
      in
     (case slice160 content_text of Inl e \<Rightarrow> (st, Inl e) | Inr description \<Rightarrow>
      let meta = dumps (meta_doc title description) in
     (case connect st of (st1, Inl e) \<Rightarrow> (st1, Inl e) | (st1, Inr _) \<Rightarrow>
      let st2 = log_call Cursor st1 in
     (case insert_page st2 slug title layout hero meta of
        (st3, Inl e) \<Rightarrow> (st3, Inl e)
      | (st3, Inr _) \<Rightarrow>
          (log_call ConnClose (log_call CursorClose (log_call Commit st3)),
           Inr (text_result
                  (''Page created successfully!'' @ nl
                   @ ''Title: '' @ py_str title @ nl
                   @ ''Slug: '' @ py_str slug @ nl
                   @ ''URL: https://thechief.quest/'' @ py_str slug)))))))))"

text \<open>The branch \<open>tool_name == 'list_posts'\<close>.\<close>

definition exec_list_posts :: "store \<Rightarrow> json \<Rightarrow> store \<times> (error + json)" where
  "exec_list_posts st args =
     (case connect st of
        (st1, Inl e) \<Rightarrow> (st1, Inl e)
      | (st1, Inr _) \<Rightarrow>
          let st2 = log_call Cursor st1 in
          (case dict_get args ''limit'' (JInt 10) of
             Inl e \<Rightarrow> (st2, Inl e)
           | Inr limit \<Rightarrow>
               (case select_posts st2 limit of
                  (st3, Inl e) \<Rightarrow> (st3, Inl e)
                | (st3, Inr found) \<Rightarrow>
                    (log_call ConnClose (log_call CursorClose st3),
                     Inr (text_result
                            (foldl (\<lambda>content post. content @ post_entry post)
                                   (''Blog Posts in Payload CMS:'' @ nl @ nl) found))))))"

text \<open>The branch \<open>tool_name == 'create_post'\<close>.\<close>

definition exec_create_post :: "store \<Rightarrow> json \<Rightarrow> store \<times> (error + json)" where
  "exec_create_post st args =
     (case subscript args ''title'' of Inl e \<Rightarrow> (st, Inl e) | Inr title \<Rightarrow>
     (case subscript args ''slug'' of Inl e \<Rightarrow> (st, Inl e) | Inr slug \<Rightarrow>
     (case subscript args ''content'' of Inl e \<Rightarrow> (st, Inl e) | Inr content_text \<Rightarrow>
      let rich_content = dumps (post_content_doc content_text) in
     (case slice160 content_text of Inl e \<Rightarrow> (st, Inl e) | Inr description \<Rightarrow>
      let meta = dumps (meta_doc title description) in
     (case connect st of (st1, Inl e) \<Rightarrow> (st1, Inl e) | (st1, Inr _) \<Rightarrow>
      let st2 = log_call Cursor st1 in
     (case insert_post st2 slug title rich_content meta of
        (st3, Inl e) \<Rightarrow> (st3, Inl e)
      | (st3, Inr _) \<Rightarrow>
          (log_call ConnClose (log_call CursorClose (log_call Commit st3)),
           Inr (text_result
                  (''Post created successfully!'' @ nl
                   @ ''Title: '' @ py_str title @ nl
                   @ ''Slug: '' @ py_str slug)))))))))"

text \<open>
  \<open>execute_tool\<close>: the chain of comparisons on \<open>tool_name\<close>, which ends in the branch for
  every other name.
\<close>

definition execute_tool :: "store \<Rightarrow> json \<Rightarrow> json \<Rightarrow> store \<times> (error + json)" where
  "execute_tool st tool_name args =
     (if tool_name = JStr ''list_pages'' then exec_list_pages st args
      else if tool_name = JStr ''create_page'' then exec_create_page st args
      else if tool_name = JStr ''list_posts'' then exec_list_posts st args
      else if tool_name = JStr ''create_post'' then exec_create_post st args
      else (st, Inr (text_result (''Unknown tool: '' @ py_str tool_name))))"

text \<open>The descriptors \<open>tools/list\<close> returns.\<close>

definition limit_schema :: "string \<Rightarrow> json" where
  "limit_schema description =
     JObj [(''type'', JStr ''object''),
           (''properties'', JObj [
              (''limit'', JObj [(''type'', JStr ''number''),
                                (''description'', JStr description),
                                (''default'', JInt 10)])])]"

definition create_schema :: "string \<Rightarrow> string \<Rightarrow> string \<Rightarrow> json" where
  "create_schema title_d slug_d content_d =
     JObj [(''type'', JStr ''object''),
           (''properties'', JObj [
              (''title'', JObj [(''type'', JStr ''string''), (''description'', JStr title_d)]),
              (''slug'', JObj [(''type'', JStr ''string''), (''description'', JStr slug_d)]),
              (''content'', JObj [(''type'', JStr ''string''), (''description'', JStr content_d)])]),
           (''required'', JArr [JStr ''title'', JStr ''slug'', JStr ''content''])]"

definition tool_descriptors :: "json list" where
  "tool_descriptors =
     [JObj [(''name'', JStr ''list_pages''),
            (''description'', JStr ''List all pages in Payload CMS''),
            (''inputSchema'', limit_schema ''Number of pages to return'')],
      JObj [(''name'', JStr ''create_page''),
            (''description'', JStr ''Create a new page with content''),
            (''inputSchema'', create_schema ''Page title'' ''URL slug'' ''Page content'')],
      JObj [(''name'', JStr ''list_posts''),
            (''description'', JStr ''List all blog posts''),
            (''inputSchema'', limit_schema ''Number of posts to return'')],
      JObj [(''name'', JStr ''create_post''),
            (''description'', JStr ''Create a new blog post''),
            (''inputSchema'', create_schema ''Post title'' ''URL slug'' ''Post content'')]]"

definition initialize_result :: json where
  "initialize_result =
     JObj [(''protocolVersion'', JStr ''1.0.0''),
           (''capabilities'', JObj [(''tools'', JObj [])]),
           (''serverInfo'', JObj [(''name'', JStr ''payload-content-manager''),
                                  (''version'', JStr ''1.0.0'')])]"

definition result_response :: "json \<Rightarrow> json \<Rightarrow> json" where
  "result_response request_id result =
     JObj [(''jsonrpc'', JStr ''2.0''), (''id'', request_id), (''result'', result)]"

definition error_response :: "json \<Rightarrow> int \<Rightarrow> string \<Rightarrow> json" where
  "error_response request_id code message =
     JObj [(''jsonrpc'', JStr ''2.0''), (''id'', request_id),
           (''error'', JObj [(''code'', JInt code), (''message'', JStr message)])]"

text \<open>
  \<open>handle_request\<close>. It returns the store with the response, or with the exception that
  leaves it: \<open>request['params']['name']\<close> is read outside the \<open>try\<close>. The annotation
  makes \<open>request\<close> a dictionary; any other value has no \<open>get\<close>.
\<close>

definition handle_request :: "store \<Rightarrow> json \<Rightarrow> store \<times> (error + json)" where
  "handle_request st request =
     (case dict_get request ''method'' (JStr []) of Inl e \<Rightarrow> (st, Inl e) | Inr method \<Rightarrow>
     (case dict_get request ''id'' JNull of Inl e \<Rightarrow> (st, Inl e) | Inr request_id \<Rightarrow>
      if method = JStr ''initialize'' then
        (st, Inr (result_response request_id initialize_result))
      else if method = JStr ''tools/list'' then
        (st, Inr (result_response request_id (JObj [(''tools'', JArr tool_descriptors)])))
      else if method = JStr ''tools/call'' then
        (case subscript request ''params'' of Inl e \<Rightarrow> (st, Inl e) | Inr params \<Rightarrow>
        (case subscript params ''name'' of Inl e \<Rightarrow> (st, Inl e) | Inr tool_name \<Rightarrow>
        (case dict_get params ''arguments'' (JObj []) of Inl e \<Rightarrow> (st, Inl e) | Inr args \<Rightarrow>
        (case execute_tool st tool_name args of
           (st', Inr result) \<Rightarrow> (st', Inr (result_response request_id result))
         | (st', Inl e) \<Rightarrow> (st', Inr (error_response request_id (- 32603) (str_exc e)))))))
      else
        (st, Inr (error_response request_id (- 32601) (''Method not found: '' @ py_str method)))))"

text \<open>
  \<open>run\<close>: the loop over the lines of standard input. \<open>readline\<close> returns the empty string
  at the end of the input only, and the loop stops there. \<open>json.loads\<close> is a parameter:
  it gives the parsed value or the message of the \<open>JSONDecodeError\<close>. Every \<open>print\<close>
  adds one line to its stream.
\<close>

record process =
  db :: store
  stdout :: "string list"
  stderr :: "string list"
  unread :: "string list"

fun serve :: "(string \<Rightarrow> string + json) \<Rightarrow> string list \<Rightarrow> process \<Rightarrow> process" where
  "serve loads [] p = p\<lparr>unread := []\<rparr>"
| "serve loads (line # rest) p =
     (if line = [] then p\<lparr>unread := rest\<rparr>
      else case loads line of
        Inl m \<Rightarrow> serve loads rest (p\<lparr>stderr := stderr p @ [''Error: '' @ m]\<rparr>)
      | Inr request \<Rightarrow>
          (case handle_request (db p) request of
             (st', Inl e) \<Rightarrow>
               serve loads rest (p\<lparr>db := st', stderr := stderr p @ [''Error: '' @ str_exc e]\<rparr>)
           | (st', Inr response) \<Rightarrow>
               serve loads rest (p\<lparr>db := st', stdout := stdout p @ [dumps response]\<rparr>)))"

definition run :: "(string \<Rightarrow> string + json) \<Rightarrow> store \<Rightarrow> string list \<Rightarrow> process" where
  "run loads st lines =
     serve loads lines
       \<lparr>db = st, stdout = [], stderr = [''Payload Content MCP Server starting...''],
        unread = lines\<rparr>"

section \<open>The client: \<open>PayloadMCPClient\<close>\<close>

text \<open>The request \<open>_call_tool\<close> builds: always a \<open>tools/call\<close> with the identifier 1.\<close>

definition request_payload :: "string \<Rightarrow> json \<Rightarrow> json" where
  "request_payload tool_name arguments =
     JObj [(''jsonrpc'', JStr ''2.0''),
           (''id'', JInt 1),
           (''method'', JStr ''tools/call''),
           (''params'', JObj [(''name'', JStr tool_name), (''arguments'', arguments)])]"

text \<open>\<open>text.split('\n')\<close>: the pieces between line feeds, the last one possibly empty.\<close>

fun split_nl :: "string \<Rightarrow> string list" where
  "split_nl [] = [] # []"
| "split_nl (c # cs) =
     (if c = CHR 0x0A then [] # split_nl cs
      else (case split_nl cs of [] \<Rightarrow> [c] # [] | l # ls \<Rightarrow> (c # l) # ls))"

definition startswith :: "string \<Rightarrow> string \<Rightarrow> bool" where
  "startswith s p = (take (length p) s = p)"

text \<open>
  The loop over the lines of the response body: the first line that starts with
  \<open>data: \<close> is parsed and returned; with no such line the loop ends and the fixed
  dictionary is returned.
\<close>

fun first_data :: "(string \<Rightarrow> string + json) \<Rightarrow> string list \<Rightarrow> error + json" where
  "first_data loads [] = Inr (JObj [(''error'', JStr ''No valid response'')])"
| "first_data loads (line # rest) =
     (if startswith line ''data: '' then
        (case loads (drop 6 line) of Inl m \<Rightarrow> Inl (JSONDecodeError m) | Inr v \<Rightarrow> Inr v)
      else first_data loads rest)"

text \<open>
  \<open>_call_tool\<close>. \<open>requests.post\<close> is a parameter: from the request it gives the text of
  the response body, or the exception of a failed exchange.
\<close>

definition call_tool ::
  "(string \<Rightarrow> string + json) \<Rightarrow> (json \<Rightarrow> error + string) \<Rightarrow> string \<Rightarrow> json \<Rightarrow> error + json" where
  "call_tool loads post tool_name arguments =
     (case post (request_payload tool_name arguments) of
        Inl e \<Rightarrow> Inl e
      | Inr body \<Rightarrow> first_data loads (split_nl body))"

text \<open>
  The wrapper methods, one constructor each, with the arguments of their signatures; an
  argument left out is \<open>None\<close> and takes the default of the signature.
\<close>

datatype client_call =
    ListPosts "int option" "int option"
  | GetPost string
  | CreatePost string string "string option"
  | UpdatePost string "(string \<times> json) list"
  | DeletePost string
  | ListPages "int option"
  | CreatePage string string
  | ListCategories "int option"
  | CreateCategory string "string option"

definition default_int :: "int \<Rightarrow> int option \<Rightarrow> json" where
  "default_int d v = JInt (case v of None \<Rightarrow> d | Some n \<Rightarrow> n)"

text \<open>The tool name and the arguments each wrapper passes to \<open>_call_tool\<close>.\<close>

fun wrapper_call :: "client_call \<Rightarrow> string \<times> json" where
  "wrapper_call (ListPosts limit page) =
     (''posts_list'', JObj [(''limit'', default_int 10 limit), (''page'', default_int 1 page)])"
| "wrapper_call (GetPost post_id) =
     (''posts_get'', JObj [(''id'', JStr post_id)])"
| "wrapper_call (CreatePost title content status) =
     (''posts_create'',
      JObj [(''data'', JObj [(''title'', JStr title), (''content'', JStr content),
                             (''status'', JStr (case status of None \<Rightarrow> ''draft'' | Some s \<Rightarrow> s))])])"
| "wrapper_call (UpdatePost post_id kwargs) =
     (''posts_update'', JObj [(''id'', JStr post_id), (''data'', JObj kwargs)])"
| "wrapper_call (DeletePost post_id) =
     (''posts_delete'', JObj [(''id'', JStr post_id)])"
| "wrapper_call (ListPages limit) =
     (''pages_list'', JObj [(''limit'', default_int 10 limit)])"
| "wrapper_call (CreatePage title content) =
     (''pages_create'', JObj [(''data'', JObj [(''title'', JStr title), (''content'', JStr content)])])"
| "wrapper_call (ListCategories limit) =
     (''category_list'', JObj [(''limit'', default_int 20 limit)])"
| "wrapper_call (CreateCategory title slug) =
     (''category_create'',
      JObj [(''data'', JObj ((''title'', JStr title) #
              (case slug of None \<Rightarrow> [] | Some s \<Rightarrow> if s = [] then [] else [(''slug'', JStr s)])))])"

definition invoke ::
  "(string \<Rightarrow> string + json) \<Rightarrow> (json \<Rightarrow> error + string) \<Rightarrow> client_call \<Rightarrow> error + json" where
  "invoke loads post c = call_tool loads post (fst (wrapper_call c)) (snd (wrapper_call c))"

text \<open>The names of the descriptors the server returns for \<open>tools/list\<close>.\<close>

definition registered_names :: "json list" where
  "registered_names =
     concat (map (\<lambda>t. case t of
                         JObj items \<Rightarrow> (case map_of items ''name'' of Some n \<Rightarrow> [n] | None \<Rightarrow> [])
                       | _ \<Rightarrow> [])
                 tool_descriptors)"

section \<open>Reading responses and streams\<close>

text \<open>A field of a response, \<open>None\<close> when the response does not have it.\<close>

definition field :: "json \<Rightarrow> string \<Rightarrow> json option" where
  "field v k = (case v of JObj kvs \<Rightarrow> map_of kvs k | _ \<Rightarrow> None)"


section \<open>Example values\<close>

definition example_page :: "nat \<Rightarrow> string \<Rightarrow> string \<Rightarrow> int \<Rightarrow> page_row" where
  "example_page i title status created =
     \<lparr>page_row_id = i, page_slug = JStr title, page_title = JStr title, page_layout = ''[]'',
      page_hero = ''{}'', page_meta = ''{}'', page_status = status,
      page_created_at = created, page_updated_at = created\<rparr>"

text \<open>A reachable store with five published pages and a draft, which rejects no insert.\<close>

definition example_store :: store where
  "example_store =
     \<lparr>pages = [example_page 1 ''a'' ''published'' 10,
               example_page 2 ''b'' ''published'' 50,
               example_page 3 ''c'' ''draft'' 60,
               example_page 4 ''d'' ''published'' 30,
               example_page 5 ''e'' ''published'' 40,
               example_page 6 ''f'' ''published'' 20],
      posts = [], next_page_id = 7, next_post_id = 1, now = 100, calls = [],
      unreachable = None, rejects = (\<lambda>table slug title. None),
      limit_other = (\<lambda>v. Inl ''argument of LIMIT must be type bigint'')\<rparr>"

definition tool_request :: "json \<Rightarrow> string \<Rightarrow> json \<Rightarrow> json" where
  "tool_request request_id tool_name arguments =
     JObj [(''jsonrpc'', JStr ''2.0''), (''id'', request_id), (''method'', JStr ''tools/call''),
           (''params'', JObj [(''name'', JStr tool_name), (''arguments'', arguments)])]"

definition example_list_request :: json where
  "example_list_request =
     JObj [(''jsonrpc'', JStr ''2.0''), (''id'', JInt 2), (''method'', JStr ''tools/list'')]"

text \<open>
  A parser for the example stream: it reads the line that holds the \<open>tools/list\<close>
  request and refuses every other line.
\<close>

definition example_loads :: "string \<Rightarrow> string + json" where
  "example_loads line =
     (if line = dumps example_list_request @ nl then Inr example_list_request
      else Inl ''Expecting value: line 1 column 1 (char 0)'')"

definition example_post :: "json \<Rightarrow> error + string" where
  "example_post payload = Inr (''event: message'' @ nl @ nl)"

section \<open>Reading requests and documents\<close>

text \<open>The identifier \<open>request.get('id')\<close> reads.\<close>

definition request_id_of :: "(string \<times> json) list \<Rightarrow> json" where
  "request_id_of kvs = (case map_of kvs ''id'' of None \<Rightarrow> JNull | Some i \<Rightarrow> i)"


text \<open>The arguments \<open>request['params'].get('arguments', {})\<close> reads.\<close>

definition arguments_of :: "(string \<times> json) list \<Rightarrow> json" where
  "arguments_of ps = (case map_of ps ''arguments'' of None \<Rightarrow> JObj [] | Some a \<Rightarrow> a)"

text \<open>The blocks of type \<open>paragraph\<close> anywhere in a document, in order.\<close>

primrec paragraphs :: "json \<Rightarrow> json list" where
  "paragraphs JNull = []"
| "paragraphs (JBool b) = []"
| "paragraphs (JInt i) = []"
| "paragraphs (JStr s) = []"
| "paragraphs (JArr xs) = concat (map paragraphs xs)"
| "paragraphs (JObj kvs) =
     (if map_of kvs ''type'' = Some (JStr ''paragraph'') then [JObj kvs] else [])
     @ concat (map snd (map (map_prod (\<lambda>k. k) paragraphs) kvs))"

definition paragraph_block :: "json \<Rightarrow> json" where
  "paragraph_block content_text =
     JObj [(''type'', JStr ''paragraph''), (''children'', JArr [JObj [(''text'', content_text)]])]"

text \<open>
  What a caller of \<open>_call_tool\<close> can tell apart: a success envelope has a \<open>result\<close> and no
  \<open>error\<close>; an empty value is \<open>None\<close> or an empty dictionary, list or string.
\<close>

definition is_success :: "json \<Rightarrow> bool" where
  "is_success v = (field v ''result'' \<noteq> None \<and> field v ''error'' = None)"

definition is_empty_value :: "json \<Rightarrow> bool" where
  "is_empty_value v = (v = JNull \<or> v = JObj [] \<or> v = JArr [] \<or> v = JStr [])"

section \<open>The dispatcher\<close>

lemma registered_names_eq:
  "registered_names =
     [JStr ''list_pages'', JStr ''create_page'', JStr ''list_posts'', JStr ''create_post'']"
  by (simp add: registered_names_def tool_descriptors_def)

text \<open>
  C1. A \<open>tools/call\<close> request whose \<open>params.name\<close> is none of \<open>list_pages\<close>,
  \<open>create_page\<close>, \<open>list_posts\<close>, \<open>create_post\<close> gets a response with a \<open>result\<close> and no
  \<open>error\<close>; the result's content is the one text block \<open>Unknown tool: <name>\<close>. The store
  is left as it was.
\<close>

theorem unknown_tool_soft_miss:
  assumes "map_of kvs ''method'' = Some (JStr ''tools/call'')"
    and "map_of kvs ''params'' = Some (JObj ps)"
    and "map_of ps ''name'' = Some tool_name"
    and "tool_name \<notin> {JStr ''list_pages'', JStr ''create_page'', JStr ''list_posts'', JStr ''create_post''}"
  shows "\<exists>response.
           handle_request st (JObj kvs) = (st, Inr response) \<and>
           field response ''error'' = None \<and>
           field response ''result'' =
             Some (JObj [(''content'',
                          JArr [JObj [(''type'', JStr ''text''),
                                      (''text'', JStr (''Unknown tool: '' @ py_str tool_name))]])])"
  using assms
  by (simp add: handle_request_def dict_get_def subscript_def execute_tool_def text_result_def
      result_response_def field_def)

theorem unknown_tool_soft_miss_witness:
  "\<exists>response.
     handle_request example_store (tool_request (JInt 3) ''bogus_tool'' (JObj [])) =
       (example_store, Inr response) \<and>
     field response ''error'' = None \<and>
     field response ''result'' =
       Some (JObj [(''content'',
                    JArr [JObj [(''type'', JStr ''text''),
                                (''text'', JStr ''Unknown tool: bogus_tool'')]])])"
  using unknown_tool_soft_miss
    [where kvs = "[(''jsonrpc'', JStr ''2.0''), (''id'', JInt 3), (''method'', JStr ''tools/call''),
                   (''params'', JObj [(''name'', JStr ''bogus_tool''), (''arguments'', JObj [])])]"
       and ps = "[(''name'', JStr ''bogus_tool''), (''arguments'', JObj [])]"
       and tool_name = "JStr ''bogus_tool''" and st = example_store]
  by (simp add: tool_request_def py_str_def)

text \<open>
  C9. A request whose method is none of \<open>initialize\<close>, \<open>tools/list\<close>, \<open>tools/call\<close> (a
  request without a method has the empty one) gets a response with no \<open>result\<close> and the
  error of code -32601 and message \<open>Method not found: <method>\<close>.
\<close>

theorem unknown_method_error:
  assumes "meth = (case map_of kvs ''method'' of None \<Rightarrow> JStr [] | Some m \<Rightarrow> m)"
    and "meth \<notin> {JStr ''initialize'', JStr ''tools/list'', JStr ''tools/call''}"
  shows "\<exists>response.
           handle_request st (JObj kvs) = (st, Inr response) \<and>
           field response ''result'' = None \<and>
           field response ''error'' =
             Some (JObj [(''code'', JInt (- 32601)),
                         (''message'', JStr (''Method not found: '' @ py_str meth))])"
  using assms
  by (simp add: handle_request_def dict_get_def error_response_def field_def)

theorem unknown_method_error_witness:
  "\<exists>response.
     handle_request example_store
       (JObj [(''jsonrpc'', JStr ''2.0''), (''id'', JInt 4), (''method'', JStr ''resources/list'')]) =
       (example_store, Inr response) \<and>
     field response ''result'' = None \<and>
     field response ''error'' =
       Some (JObj [(''code'', JInt (- 32601)),
                   (''message'', JStr ''Method not found: resources/list'')])"
  using unknown_method_error
    [where kvs = "[(''jsonrpc'', JStr ''2.0''), (''id'', JInt 4), (''method'', JStr ''resources/list'')]"
       and meth = "JStr ''resources/list''" and st = example_store]
  by (simp add: py_str_def)





section \<open>Argument checks come before the store\<close>

lemma create_page_missing_field:
  assumes "map_of args ''title'' = None \<or> map_of args ''slug'' = None \<or> map_of args ''content'' = None"
  shows "\<exists>k. exec_create_page st (JObj args) = (st, Inl (KeyError k))"
  using assms
  by (auto simp add: exec_create_page_def subscript_def split: option.splits)

text \<open>
  C3. A \<open>tools/call\<close> of \<open>create_page\<close> whose arguments lack \<open>title\<close>, \<open>slug\<close> or
  \<open>content\<close> gets a response with the error of code -32603, and the store after the
  call is the store before it: no connection was opened and nothing was inserted.
\<close>

theorem create_page_missing_field_error:
  assumes "map_of kvs ''method'' = Some (JStr ''tools/call'')"
    and "map_of kvs ''params'' = Some (JObj ps)"
    and "map_of ps ''name'' = Some (JStr ''create_page'')"
    and "arguments_of ps = JObj args"
    and "map_of args ''title'' = None \<or> map_of args ''slug'' = None \<or> map_of args ''content'' = None"
  shows "\<exists>response message.
           handle_request st (JObj kvs) = (st, Inr response) \<and>
           field response ''result'' = None \<and>
           field response ''error'' =
             Some (JObj [(''code'', JInt (- 32603)), (''message'', JStr message)])"
proof -
  from assms(5) obtain k where "exec_create_page st (JObj args) = (st, Inl (KeyError k))"
    using create_page_missing_field by blast
  then show ?thesis using assms(1-4)
    by (simp add: handle_request_def dict_get_def subscript_def execute_tool_def
        error_response_def field_def arguments_of_def)
qed

theorem create_page_missing_field_error_witness:
  "\<exists>response message.
     handle_request example_store
       (tool_request (JInt 5) ''create_page'' (JObj [(''title'', JStr ''T''), (''content'', JStr ''C'')])) =
       (example_store, Inr response) \<and>
     field response ''result'' = None \<and>
     field response ''error'' =
       Some (JObj [(''code'', JInt (- 32603)), (''message'', JStr message)])"
  using create_page_missing_field_error
    [where kvs = "[(''jsonrpc'', JStr ''2.0''), (''id'', JInt 5), (''method'', JStr ''tools/call''),
                   (''params'', JObj [(''name'', JStr ''create_page''),
                      (''arguments'', JObj [(''title'', JStr ''T''), (''content'', JStr ''C'')])])]"
       and ps = "[(''name'', JStr ''create_page''),
                  (''arguments'', JObj [(''title'', JStr ''T''), (''content'', JStr ''C'')])]"
       and args = "[(''title'', JStr ''T''), (''content'', JStr ''C'')]"
       and st = example_store]
  by (simp add: tool_request_def arguments_of_def)

section \<open>Listing\<close>









section \<open>Creating\<close>

lemma exec_create_page_row:
  assumes "exec_create_page st (JObj args) = (st', Inr r)"
    and "map_of args ''title'' = Some title"
    and "map_of args ''slug'' = Some slug"
    and "map_of args ''content'' = Some (JStr body)"
  shows "pages st' = pages st @
           [\<lparr>page_row_id = next_page_id st, page_slug = slug, page_title = title,
             page_layout = dumps (page_layout_doc title (JStr body)),
             page_hero = dumps (JObj [(''type'', JStr ''none'')]),
             page_meta = dumps (meta_doc title (JStr (take 160 body))),
             page_status = ''published'', page_created_at = now st,
             page_updated_at = now st\<rparr>] \<and> posts st' = posts st"
  using assms
  by (auto simp add: exec_create_page_def subscript_def slice160_def connect_def insert_page_def
      log_call_def Let_def split: option.splits)

lemma exec_create_post_row:
  assumes "exec_create_post st (JObj args) = (st', Inr r)"
    and "map_of args ''title'' = Some title"
    and "map_of args ''slug'' = Some slug"
    and "map_of args ''content'' = Some (JStr body)"
  shows "posts st' = posts st @
           [\<lparr>post_row_id = next_post_id st, post_slug = slug, post_title = title,
             post_content = dumps (post_content_doc (JStr body)),
             post_meta = dumps (meta_doc title (JStr (take 160 body))),
             post_status = ''published'', post_published_at = now st,
             post_created_at = now st, post_updated_at = now st\<rparr>] \<and> pages st' = pages st"
  using assms
  by (auto simp add: exec_create_post_def subscript_def slice160_def connect_def insert_post_def
      log_call_def Let_def split: option.splits)

lemma paragraphs_page_layout_doc:
  "paragraphs (page_layout_doc (JStr title) (JStr body)) = [paragraph_block (JStr body)]"
  by (simp add: page_layout_doc_def paragraph_block_def)

lemma paragraphs_post_content_doc:
  "paragraphs (post_content_doc (JStr body)) = [paragraph_block (JStr body)]"
  by (simp add: post_content_doc_def paragraph_block_def)

text \<open>
  C5. When \<open>create_page\<close> or \<open>create_post\<close> succeeds on a title, a slug and a body
  text, the table has one more row. The document stored in it (the \<open>layout\<close> of a page,
  the \<open>content\<close> of a post) holds exactly one paragraph block, with the body text as its
  only child; the row's \<open>meta\<close> has the first 160 characters of the body text as
  description; its status is \<open>published\<close>.
\<close>

theorem created_record_shape:
  assumes "map_of args ''title'' = Some (JStr title)"
    and "map_of args ''slug'' = Some (JStr slug)"
    and "map_of args ''content'' = Some (JStr body)"
  shows "(execute_tool st (JStr ''create_page'') (JObj args) = (st1, Inr r1) \<longrightarrow>
            (\<exists>row document.
               pages st1 = pages st @ [row] \<and>
               page_layout row = dumps document \<and>
               paragraphs document =
                 [JObj [(''type'', JStr ''paragraph''),
                        (''children'', JArr [JObj [(''text'', JStr body)]])]] \<and>
               page_meta row =
                 dumps (JObj [(''title'', JStr title), (''description'', JStr (take 160 body))]) \<and>
               page_status row = ''published'')) \<and>
         (execute_tool st (JStr ''create_post'') (JObj args) = (st2, Inr r2) \<longrightarrow>
            (\<exists>row document.
               posts st2 = posts st @ [row] \<and>
               post_content row = dumps document \<and>
               paragraphs document =
                 [JObj [(''type'', JStr ''paragraph''),
                        (''children'', JArr [JObj [(''text'', JStr body)]])]] \<and>
               post_meta row =
                 dumps (JObj [(''title'', JStr title), (''description'', JStr (take 160 body))]) \<and>
               post_status row = ''published''))"
proof (intro conjI impI)
  assume "execute_tool st (JStr ''create_page'') (JObj args) = (st1, Inr r1)"
  then have "exec_create_page st (JObj args) = (st1, Inr r1)"
    by (simp add: execute_tool_def)
  from exec_create_page_row [OF this assms] paragraphs_page_layout_doc [of title body]
  show "\<exists>row document.
               pages st1 = pages st @ [row] \<and>
               page_layout row = dumps document \<and>
               paragraphs document =
                 [JObj [(''type'', JStr ''paragraph''),
                        (''children'', JArr [JObj [(''text'', JStr body)]])]] \<and>
               page_meta row =
                 dumps (JObj [(''title'', JStr title), (''description'', JStr (take 160 body))]) \<and>
               page_status row = ''published''"
    by (simp add: paragraph_block_def meta_doc_def del: dumps.simps paragraphs.simps) blast
next
  assume "execute_tool st (JStr ''create_post'') (JObj args) = (st2, Inr r2)"
  then have "exec_create_post st (JObj args) = (st2, Inr r2)"
    by (simp add: execute_tool_def)
  from exec_create_post_row [OF this assms] paragraphs_post_content_doc [of body]
  show "\<exists>row document.
               posts st2 = posts st @ [row] \<and>
               post_content row = dumps document \<and>
               paragraphs document =
                 [JObj [(''type'', JStr ''paragraph''),
                        (''children'', JArr [JObj [(''text'', JStr body)]])]] \<and>
               post_meta row =
                 dumps (JObj [(''title'', JStr title), (''description'', JStr (take 160 body))]) \<and>
               post_status row = ''published''"
    by (simp add: paragraph_block_def meta_doc_def del: dumps.simps paragraphs.simps) blast
qed


lemma create_page_example:
  "\<exists>st1 r1. execute_tool example_store (JStr ''create_page'')
       (JObj [(''title'', JStr ''T''), (''slug'', JStr ''t''), (''content'', JStr ''C'')]) = (st1, Inr r1)"
  by (simp add: execute_tool_def exec_create_page_def subscript_def slice160_def connect_def
      insert_page_def log_call_def example_store_def Let_def del: dumps.simps)

lemma create_post_example:
  "\<exists>st2 r2. execute_tool example_store (JStr ''create_post'')
       (JObj [(''title'', JStr ''T''), (''slug'', JStr ''t''), (''content'', JStr ''C'')]) = (st2, Inr r2)"
  by (simp add: execute_tool_def exec_create_post_def subscript_def slice160_def connect_def
      insert_post_def log_call_def example_store_def Let_def del: dumps.simps)

theorem created_record_shape_witness:
  "(\<exists>st1 r1 row document.
      execute_tool example_store (JStr ''create_page'')
        (JObj [(''title'', JStr ''T''), (''slug'', JStr ''t''), (''content'', JStr ''C'')]) = (st1, Inr r1) \<and>
      pages st1 = pages example_store @ [row] \<and>
      page_layout row = dumps document \<and>
      paragraphs document =
        [JObj [(''type'', JStr ''paragraph''), (''children'', JArr [JObj [(''text'', JStr ''C'')]])]] \<and>
      page_meta row = dumps (JObj [(''title'', JStr ''T''), (''description'', JStr ''C'')]) \<and>
      page_status row = ''published'') \<and>
   (\<exists>st2 r2 row document.
      execute_tool example_store (JStr ''create_post'')
        (JObj [(''title'', JStr ''T''), (''slug'', JStr ''t''), (''content'', JStr ''C'')]) = (st2, Inr r2) \<and>
      posts st2 = posts example_store @ [row] \<and>
      post_content row = dumps document \<and>
      paragraphs document =
        [JObj [(''type'', JStr ''paragraph''), (''children'', JArr [JObj [(''text'', JStr ''C'')]])]] \<and>
      post_meta row = dumps (JObj [(''title'', JStr ''T''), (''description'', JStr ''C'')]) \<and>
      post_status row = ''published'')"
proof -
  let ?args = "[(''title'', JStr ''T''), (''slug'', JStr ''t''), (''content'', JStr ''C'')]"
  obtain st1 r1 where e1: "execute_tool example_store (JStr ''create_page'') (JObj ?args) = (st1, Inr r1)"
    using create_page_example by blast
  obtain st2 r2 where e2: "execute_tool example_store (JStr ''create_post'') (JObj ?args) = (st2, Inr r2)"
    using create_post_example by blast
  have t: "map_of ?args ''title'' = Some (JStr ''T'')" by simp
  have s: "map_of ?args ''slug'' = Some (JStr ''t'')" by simp
  have c: "map_of ?args ''content'' = Some (JStr ''C'')" by simp
  have k: "take 160 ''C'' = ''C''" by simp
  from created_record_shape [OF t s c, where st = example_store and ?st1.0 = st1 and ?r1.0 = r1
      and ?st2.0 = st2 and ?r2.0 = r2] e1 e2
  show ?thesis unfolding k by blast
qed

section \<open>The client's reading of the response body\<close>

lemma first_data_none:
  "\<forall>line \<in> set lines. \<not> startswith line ''data: '' \<Longrightarrow>
   first_data loads lines = Inr (JObj [(''error'', JStr ''No valid response'')])"
  by (induction lines) simp_all

text \<open>
  C6. When no line of the response body starts with \<open>data: \<close>, \<open>_call_tool\<close> hands its
  caller the dictionary whose \<open>error\<close> is \<open>No valid response\<close>: not a success envelope,
  and not an empty value.
\<close>

theorem no_data_line_error_object:
  assumes "post (request_payload tool_name arguments) = Inr body"
    and "\<forall>line \<in> set (split_nl body). \<not> startswith line ''data: ''"
  shows "\<exists>v. call_tool loads post tool_name arguments = Inr v \<and>
             field v ''error'' = Some (JStr ''No valid response'') \<and>
             \<not> is_success v \<and> \<not> is_empty_value v"
  using assms first_data_none [of "split_nl body" loads]
  by (simp add: call_tool_def field_def is_success_def is_empty_value_def)

theorem no_data_line_error_object_witness:
  "\<exists>v. call_tool example_loads example_post ''posts_list'' (JObj []) = Inr v \<and>
       field v ''error'' = Some (JStr ''No valid response'') \<and>
       \<not> is_success v \<and> \<not> is_empty_value v"
  using no_data_line_error_object
    [where post = example_post and loads = example_loads and tool_name = "''posts_list''"
       and arguments = "JObj []" and body = "''event: message'' @ nl @ nl"]
  by (simp add: example_post_def startswith_def)

section \<open>The loop over standard input\<close>

text \<open>
  C7. On a line that does not parse followed by a line that holds a \<open>tools/list\<close>
  request, the loop prints one line to standard output, the response to the request, and
  one diagnostic to standard error, after the start message; it leaves the loop at the end
  of the input. With more input after the two lines it goes on from the same streams.
\<close>

theorem stdio_skips_malformed_line:
  assumes "bad \<noteq> []" and "loads bad = Inl m"
    and "good \<noteq> []" and "loads good = Inr (JObj kvs)"
    and "map_of kvs ''method'' = Some (JStr ''tools/list'')"
    and "response = JObj [(''jsonrpc'', JStr ''2.0''), (''id'', request_id_of kvs),
                          (''result'', JObj [(''tools'', JArr tool_descriptors)])]"
  shows "run loads st [bad, good] =
           \<lparr>db = st, stdout = [dumps response],
            stderr = [''Payload Content MCP Server starting...'', ''Error: '' @ m],
            unread = []\<rparr> \<and>
         run loads st (bad # good # rest) =
           serve loads rest
             \<lparr>db = st, stdout = [dumps response],
              stderr = [''Payload Content MCP Server starting...'', ''Error: '' @ m],
              unread = bad # good # rest\<rparr>"
  using assms
  by (simp add: run_def handle_request_def dict_get_def result_response_def request_id_of_def
      del: dumps.simps)

lemma example_loads_bad:
  "example_loads (''not json'' @ nl) = Inl ''Expecting value: line 1 column 1 (char 0)''"
  by (simp add: example_loads_def example_list_request_def)

lemma example_loads_good:
  "example_loads (dumps example_list_request @ nl) = Inr example_list_request"
  by (simp add: example_loads_def del: dumps.simps)

theorem stdio_skips_malformed_line_witness:
  "run example_loads example_store [''not json'' @ nl, dumps example_list_request @ nl] =
     \<lparr>db = example_store,
      stdout = [dumps (JObj [(''jsonrpc'', JStr ''2.0''), (''id'', JInt 2),
                             (''result'', JObj [(''tools'', JArr tool_descriptors)])])],
      stderr = [''Payload Content MCP Server starting...'',
                ''Error: Expecting value: line 1 column 1 (char 0)''],
      unread = []\<rparr>"
proof -
  have i: "request_id_of [(''jsonrpc'', JStr ''2.0''), (''id'', JInt 2), (''method'', JStr ''tools/list'')] = JInt 2"
    by (simp add: request_id_of_def)
  have g: "example_loads (dumps example_list_request @ nl) =
             Inr (JObj [(''jsonrpc'', JStr ''2.0''), (''id'', JInt 2), (''method'', JStr ''tools/list'')])"
    using example_loads_good by (simp add: example_list_request_def del: dumps.simps)
  have "run example_loads example_store [''not json'' @ nl, dumps example_list_request @ nl] =
     \<lparr>db = example_store,
      stdout = [dumps (JObj [(''jsonrpc'', JStr ''2.0''),
                 (''id'', request_id_of [(''jsonrpc'', JStr ''2.0''), (''id'', JInt 2), (''method'', JStr ''tools/list'')]),
                             (''result'', JObj [(''tools'', JArr tool_descriptors)])])],
      stderr = [''Payload Content MCP Server starting...'',
                ''Error: '' @ ''Expecting value: line 1 column 1 (char 0)''],
      unread = []\<rparr>"
    by (rule stdio_skips_malformed_line
          [where loads = example_loads and bad = "''not json'' @ nl"
             and good = "dumps example_list_request @ nl"
             and kvs = "[(''jsonrpc'', JStr ''2.0''), (''id'', JInt 2), (''method'', JStr ''tools/list'')]"
             and m = "''Expecting value: line 1 column 1 (char 0)''" and rest = "[]",
           THEN conjunct1, OF _ example_loads_bad _ g _ refl])
       simp_all
  then show ?thesis unfolding i by simp
qed

section \<open>Connections\<close>

text \<open>
  A tool that returns has closed the connection it opened, after the commit when it
  inserted. A tool that raises after connecting has not closed it.
\<close>

lemma released_on_success:
  assumes "execute_tool st tool_name args = (st', Inr r)"
  shows "\<exists>t. calls st' = calls st \<or>
             calls st' = calls st @ [Connect, Cursor, Execute t, Fetch, CursorClose, ConnClose] \<or>
             calls st' = calls st @ [Connect, Cursor, Execute t, Fetch, Commit, CursorClose, ConnClose]"
  using assms
  by (auto simp add: execute_tool_def exec_list_pages_def exec_list_posts_def exec_create_page_def
      exec_create_post_def connect_def select_pages_def select_posts_def insert_page_def
      insert_post_def log_call_def Let_def
      split: if_splits option.splits sum.splits prod.splits)

lemma left_open_on_failure:
  assumes "execute_tool st tool_name args = (st', Inl e)"
  shows "calls st' = calls st \<or>
         (\<exists>cs. calls st' = calls st @ Connect # cs \<and> ConnClose \<notin> set cs)"
  using assms
  by (auto simp add: execute_tool_def exec_list_pages_def exec_list_posts_def exec_create_page_def
      exec_create_post_def connect_def select_pages_def select_posts_def insert_page_def
      insert_post_def log_call_def Let_def
      split: if_splits option.splits sum.splits prod.splits)


section \<open>The client against this server\<close>

text \<open>
  C10. The tool name each wrapper method of the client sends is one of the nine names
  \<open>posts_list\<close>, ..., \<open>category_create\<close>, none of which is a name of \<open>tools/list\<close>; this
  server answers the request \<open>_call_tool\<close> builds for it with the text
  \<open>Unknown tool: <name>\<close> and leaves the store as it was.
\<close>

theorem client_tools_unregistered:
  "fst (wrapper_call c) \<in>
     {''posts_list'', ''posts_get'', ''posts_create'', ''posts_update'', ''posts_delete'',
      ''pages_list'', ''pages_create'', ''category_list'', ''category_create''} \<and>
   JStr (fst (wrapper_call c)) \<notin> set registered_names \<and>
   handle_request st (request_payload (fst (wrapper_call c)) (snd (wrapper_call c))) =
     (st, Inr (JObj [(''jsonrpc'', JStr ''2.0''), (''id'', JInt 1),
                     (''result'',
                      JObj [(''content'',
                             JArr [JObj [(''type'', JStr ''text''),
                                         (''text'', JStr (''Unknown tool: '' @ fst (wrapper_call c)))]])])]))"
  by (cases c)
     (simp_all add: registered_names_eq handle_request_def request_payload_def dict_get_def
        subscript_def execute_tool_def text_result_def result_response_def py_str_def)

theorem client_tools_unregistered_witness:
  "JStr ''pages_list'' \<notin> set registered_names \<and>
   handle_request example_store (request_payload ''pages_list'' (JObj [(''limit'', JInt 10)])) =
     (example_store,
      Inr (JObj [(''jsonrpc'', JStr ''2.0''), (''id'', JInt 1),
                 (''result'',
                  JObj [(''content'',
                         JArr [JObj [(''type'', JStr ''text''),
                                     (''text'', JStr ''Unknown tool: pages_list'')]])])]))"
  using client_tools_unregistered [where c = "ListPages None" and st = example_store]
  by (simp add: default_int_def)

end
